theory Spec2Isabelle
  imports Main "HOL-Library.Multiset"
begin

section \<open>Notes as the clients see them\<close>

text \<open>
  Both clients (\<^verbatim>\<open>script.js\<close>, backed by local storage, and \<^verbatim>\<open>public/script.js\<close>, backed by
  the REST API) read the same fields of a note: an identifier, the text, the creation
  instant, the pin flag and the due date; the API client also reads a reminder time and
  spells the fields \<^verbatim>\<open>created_at\<close>, \<^verbatim>\<open>due_date\<close>, \<^verbatim>\<open>reminder_time\<close>.

  An identifier is a string (\<^verbatim>\<open>Date.now().toString()\<close> in the local client) or an
  integer (the \<^verbatim>\<open>SERIAL\<close> key of the table). Instants are milliseconds since the epoch,
  a time of day is a pair of hours and minutes. A field that is \<^verbatim>\<open>null\<close>, absent or the
  empty string is \<open>None\<close>.

  The pin flag is \<^verbatim>\<open>true\<close>, \<^verbatim>\<open>false\<close> or \<^verbatim>\<open>null\<close>: the column of the table may hold
  \<^verbatim>\<open>NULL\<close>, and the server stores \<^verbatim>\<open>NULL\<close> there whenever a text is edited.

  A due date reaches the clients as a string of one of two forms. The local client stores
  the value of the date input, \<^verbatim>\<open>YYYY-MM-DD\<close>; \<open>DateOnly d\<close> is that string for the day
  with number \<open>d\<close>. The server reads its \<^verbatim>\<open>DATE\<close> column into a \<^verbatim>\<open>Date\<close> and sends it as
  JSON, which is a timestamp with time and zone, \<^verbatim>\<open>YYYY-MM-DDTHH:mm:ss.sssZ\<close>;
  \<open>DateTime t\<close> is that string for the instant \<open>t\<close>.
\<close>

datatype ident = IdNum int | IdStr string

datatype dateString = DateOnly int | DateTime int

record sticky_note =
  note_id :: ident
  note_text :: string
  createdAt :: "int option"
  pinned :: "bool option"
  dueDate :: "dateString option"
  reminderTime :: "(nat \<times> nat) option"

text \<open>The truthiness of the pin flag: \<^verbatim>\<open>false\<close> and \<^verbatim>\<open>null\<close> are falsy.\<close>

definition isPinned :: "sticky_note \<Rightarrow> bool" where
  "isPinned n = (pinned n = Some True)"

subsection \<open>Strings\<close>

text \<open>
  \<^verbatim>\<open>String.prototype.toLowerCase\<close>, on texts of the ASCII range: the letters \<^verbatim>\<open>A\<close> to
  \<^verbatim>\<open>Z\<close> map to \<^verbatim>\<open>a\<close> to \<^verbatim>\<open>z\<close>, every other character is kept.
\<close>

definition lowerChar :: "char \<Rightarrow> char" where
  "lowerChar c =
     (if 65 \<le> (of_char c :: nat) \<and> (of_char c :: nat) \<le> 90
      then char_of ((of_char c :: nat) + 32) else c)"

definition toLowerCase :: "string \<Rightarrow> string" where
  "toLowerCase s = map lowerChar s"

text \<open>\<^verbatim>\<open>String.prototype.startsWith\<close> and \<^verbatim>\<open>String.prototype.includes\<close>.\<close>

fun startsWith :: "string \<Rightarrow> string \<Rightarrow> bool" where
  "startsWith s [] = True"
| "startsWith [] (c # cs) = False"
| "startsWith (d # ds) (c # cs) = (d = c \<and> startsWith ds cs)"

fun includes_str :: "string \<Rightarrow> string \<Rightarrow> bool" where
  "includes_str [] t = startsWith [] t"
| "includes_str (d # ds) t = (startsWith (d # ds) t \<or> includes_str ds t)"

subsection \<open>Sorting with a comparator\<close>

text \<open>
  \<^verbatim>\<open>Array.prototype.sort(compareFn)\<close> is stable: of two elements that the comparator
  does not separate, the one that came first stays first. For a comparator that is
  consistent on the elements of the array its result is therefore determined; the
  insertion sort below computes it. An element is put in front of the first element it
  is not greater than, and the elements are inserted from the right, so equal elements
  keep their order. For a comparator that is not consistent the language leaves the
  order to the engine; the insertion sort is then one engine among others, and the
  theorems about due dates and creation instants are stated for consistent input only.
\<close>

fun insertBy :: "('a \<Rightarrow> 'a \<Rightarrow> int) \<Rightarrow> 'a \<Rightarrow> 'a list \<Rightarrow> 'a list" where
  "insertBy cmp x [] = [x]"
| "insertBy cmp x (y # ys) =
     (if cmp x y \<le> 0 then x # y # ys else y # insertBy cmp x ys)"

fun sortBy :: "('a \<Rightarrow> 'a \<Rightarrow> int) \<Rightarrow> 'a list \<Rightarrow> 'a list" where
  "sortBy cmp [] = []"
| "sortBy cmp (x # xs) = insertBy cmp x (sortBy cmp xs)"

subsection \<open>The view of the note list\<close>

text \<open>\<^verbatim>\<open>new Date(n.createdAt || 0)\<close>: a missing creation instant counts as the epoch.\<close>

definition createdTime :: "sticky_note \<Rightarrow> int" where
  "createdTime n = (case createdAt n of None \<Rightarrow> 0 | Some t \<Rightarrow> t)"

text \<open>
  \<^verbatim>\<open>new Date(due_date).getTime()\<close>: a date without time is read as midnight of that day
  in universal time, a timestamp as its instant.
\<close>

fun getTime :: "dateString \<Rightarrow> int" where
  "getTime (DateOnly d) = d * 86400000"
| "getTime (DateTime t) = t"

text \<open>The filter of both clients: the lower-cased text includes the lower-cased term.\<close>

definition matches :: "string \<Rightarrow> sticky_note \<Rightarrow> bool" where
  "matches searchTerm n = includes_str (toLowerCase (note_text n)) (toLowerCase searchTerm)"

text \<open>
  \<^verbatim>\<open>script.js\<close>, \<^verbatim>\<open>renderAllNotes\<close>: filter, split by the pin flag, sort each part by
  creation instant (latest first), and render the pinned part before the other.
\<close>

definition byCreated :: "sticky_note \<Rightarrow> sticky_note \<Rightarrow> int" where
  "byCreated a b = createdTime b - createdTime a"

definition renderAllNotes_local :: "string \<Rightarrow> sticky_note list \<Rightarrow> sticky_note list" where
  "renderAllNotes_local searchTerm notes =
     (let filteredNotes = filter (matches searchTerm) notes;
          pinnedNotes = filter isPinned filteredNotes;
          unpinnedNotes = filter (\<lambda>n. \<not> isPinned n) filteredNotes
      in sortBy byCreated pinnedNotes @ sortBy byCreated unpinnedNotes)"

text \<open>
  \<^verbatim>\<open>public/script.js\<close>, \<^verbatim>\<open>renderAllNotes\<close>: filter, then one sort whose comparator looks
  at the pin flag, then at the due dates, then at the creation instants. The test
  \<^verbatim>\<open>a.pinned !== b.pinned\<close> compares the flags as values, so \<^verbatim>\<open>false\<close> and \<^verbatim>\<open>null\<close>
  differ; \<^verbatim>\<open>a.pinned ? -1 : 1\<close> looks at the truthiness.
\<close>

definition compareNotes :: "sticky_note \<Rightarrow> sticky_note \<Rightarrow> int" where
  "compareNotes a b =
     (if pinned a \<noteq> pinned b then (if isPinned a then - 1 else 1)
      else (case (dueDate a, dueDate b) of
              (Some dateA, Some dateB) \<Rightarrow> getTime dateA - getTime dateB
            | (Some dateA, None) \<Rightarrow> - 1
            | (None, Some dateB) \<Rightarrow> 1
            | (None, None) \<Rightarrow> createdTime b - createdTime a))"

definition renderAllNotes_api :: "string \<Rightarrow> sticky_note list \<Rightarrow> sticky_note list" where
  "renderAllNotes_api searchTerm allNotes =
     sortBy compareNotes (filter (matches searchTerm) allNotes)"

subsection \<open>The colour of a note\<close>

text \<open>
  The clock of the browser: the day number of the local date, the present instant, and
  for hours and minutes the instant at which the local clock shows that time today
  (\<^verbatim>\<open>new Date(year, month, date, hours, minutes)\<close>). \<^verbatim>\<open>today\<close> in the source is local
  midnight of today and \<^verbatim>\<open>tomorrow\<close> local midnight of the next day.
\<close>

record clock =
  today :: int
  instant :: int
  atTime :: "nat \<Rightarrow> nat \<Rightarrow> int"

text \<open>
  \<^verbatim>\<open>new Date(dueDateString + 'T00:00:00')\<close>. After a date without time the suffix
  completes a local date and time: local midnight of that day, given by its day number.
  After a timestamp, which has its own time and zone, the suffix makes a string that is
  no date: the result is an invalid date (\<open>None\<close>), which is equal to no instant and
  before no instant.
\<close>

fun localMidnight :: "dateString \<Rightarrow> int option" where
  "localMidnight (DateOnly d) = Some d"
| "localMidnight (DateTime t) = None"

datatype color = color_default | color_overdue | color_due_today | color_due_tomorrow

definition isDateOverdue :: "clock \<Rightarrow> dateString option \<Rightarrow> bool" where
  "isDateOverdue clk dueDateString =
     (case dueDateString of
        None \<Rightarrow> False
      | Some s \<Rightarrow> (case localMidnight s of None \<Rightarrow> False | Some due \<Rightarrow> due < today clk))"

definition getNoteColorClass ::
  "clock \<Rightarrow> dateString option \<Rightarrow> (nat \<times> nat) option \<Rightarrow> color" where
  "getNoteColorClass clk dueDateString reminder =
     (case dueDateString of
        None \<Rightarrow> color_default
      | Some s \<Rightarrow>
          (let dueDate = localMidnight s;
               isToday = (dueDate = Some (today clk));
               isOverdue = (case dueDate of None \<Rightarrow> False | Some due \<Rightarrow> due < today clk);
               isDueTodayButLate =
                 (case reminder of
                    None \<Rightarrow> False
                  | Some (hours, minutes) \<Rightarrow>
                      isToday \<and> atTime clk hours minutes < instant clk)
           in if isOverdue \<or> isDueTodayButLate then color_overdue
              else if isToday then color_due_today
              else if dueDate = Some (today clk + 1) then color_due_tomorrow
              else color_default))"

text \<open>
  \<^verbatim>\<open>renderNote\<close> of \<^verbatim>\<open>public/script.js\<close> passes the due date and the reminder of the note
  as the server sent them.
\<close>

definition noteColorClass :: "clock \<Rightarrow> sticky_note \<Rightarrow> color" where
  "noteColorClass clk n = getNoteColorClass clk (dueDate n) (reminderTime n)"

section \<open>The store in local storage\<close>

text \<open>
  What \<^verbatim>\<open>localStorage.getItem(LOCAL_STORAGE_KEY)\<close> followed by \<^verbatim>\<open>JSON.parse\<close> can meet:
  no item (or the empty string), a string that \<^verbatim>\<open>JSON.parse\<close> rejects, or the
  serialised array that \<^verbatim>\<open>saveNotes\<close> wrote.
\<close>

datatype 'a stored = Absent | Corrupt | Stored 'a

datatype error = SyntaxError | TypeError

datatype message =
    Invalid_JSON_file_format
  | Failed_to_import_notes
  | Successfully_imported nat
  | Failed_to_update_note
  | Failed_to_delete_note

text \<open>
  The part of the page that the operations change: the item in local storage, the text
  of the saving indicator, and the alerts shown so far.
\<close>

record 'n page =
  item :: "'n list stored"
  savingIndicator :: string
  alerts :: "message list"

definition loadNotes :: "'n list stored \<Rightarrow> error + 'n list" where
  "loadNotes notesJSON =
     (case notesJSON of
        Absent \<Rightarrow> Inr []
      | Corrupt \<Rightarrow> Inl SyntaxError
      | Stored notes \<Rightarrow> Inr notes)"

definition saveNotes :: "'n list \<Rightarrow> 'n page \<Rightarrow> 'n page" where
  "saveNotes notes st = st\<lparr>item := Stored notes, savingIndicator := ''Saved!''\<rparr>"

text \<open>
  \<^verbatim>\<open>initializeApp\<close> of \<^verbatim>\<open>script.js\<close> starts with \<^verbatim>\<open>renderAllNotes()\<close>, which calls
  \<^verbatim>\<open>loadNotes\<close> outside any \<^verbatim>\<open>try\<close>: what \<^verbatim>\<open>loadNotes\<close> throws leaves the render path.
\<close>

definition initializeApp_local :: "sticky_note page \<Rightarrow> error + sticky_note list" where
  "initializeApp_local st =
     (case loadNotes (item st) of
        Inl e \<Rightarrow> Inl e
      | Inr notes \<Rightarrow> Inr (renderAllNotes_local [] notes))"

text \<open>
  The object passed as \<^verbatim>\<open>updates\<close>: a field is supplied (\<open>Some\<close>) or not. A supplied
  creation instant, pin flag, due date or reminder may itself be \<^verbatim>\<open>null\<close>.
\<close>

record updates =
  upd_id :: "ident option"
  upd_text :: "string option"
  upd_createdAt :: "int option option"
  upd_pinned :: "bool option option"
  upd_dueDate :: "dateString option option"
  upd_reminderTime :: "(nat \<times> nat) option option"

text \<open>\<^verbatim>\<open>{ ...n, ...u }\<close>: every field of \<open>u\<close> that is supplied replaces the field of \<open>n\<close>.\<close>

definition spread :: "sticky_note \<Rightarrow> updates \<Rightarrow> sticky_note" where
  "spread n u =
     \<lparr> note_id = (case upd_id u of None \<Rightarrow> note_id n | Some v \<Rightarrow> v),
       note_text = (case upd_text u of None \<Rightarrow> note_text n | Some v \<Rightarrow> v),
       createdAt = (case upd_createdAt u of None \<Rightarrow> createdAt n | Some v \<Rightarrow> v),
       pinned = (case upd_pinned u of None \<Rightarrow> pinned n | Some v \<Rightarrow> v),
       dueDate = (case upd_dueDate u of None \<Rightarrow> dueDate n | Some v \<Rightarrow> v),
       reminderTime = (case upd_reminderTime u of None \<Rightarrow> reminderTime n | Some v \<Rightarrow> v) \<rparr>"

text \<open>\<^verbatim>\<open>Array.prototype.findIndex\<close>; \<open>None\<close> stands for \<^verbatim>\<open>-1\<close>.\<close>

fun findIndex :: "('a \<Rightarrow> bool) \<Rightarrow> 'a list \<Rightarrow> nat option" where
  "findIndex p [] = None"
| "findIndex p (x # xs) =
     (if p x then Some 0
      else (case findIndex p xs of None \<Rightarrow> None | Some i \<Rightarrow> Some (Suc i)))"

definition updateNoteContent_local ::
  "ident \<Rightarrow> updates \<Rightarrow> sticky_note page \<Rightarrow> error + sticky_note page" where
  "updateNoteContent_local i u st =
     (case loadNotes (item st) of
        Inl e \<Rightarrow> Inl e
      | Inr notes \<Rightarrow>
          (case findIndex (\<lambda>n. note_id n = i) notes of
             None \<Rightarrow> Inr st
           | Some noteIndex \<Rightarrow>
               Inr (saveNotes (notes[noteIndex := spread (notes ! noteIndex) u]) st)))"

definition deleteNote_local :: "ident \<Rightarrow> sticky_note page \<Rightarrow> error + sticky_note page" where
  "deleteNote_local i st =
     (case loadNotes (item st) of
        Inl e \<Rightarrow> Inl e
      | Inr notes \<Rightarrow> Inr (saveNotes (filter (\<lambda>n. note_id n \<noteq> i) notes) st))"

section \<open>The import of a snapshot\<close>

text \<open>
  The values \<^verbatim>\<open>JSON.parse\<close> returns. An object is the list of its own properties, each
  key once. Numbers are the integers: the identifiers and counts of this program.
\<close>

datatype json =
    JNull
  | JBool bool
  | JNum int
  | JStr string
  | JArr "json list"
  | JObj "(string \<times> json) list"

text \<open>
  The test applied to every element of the imported array:
  \<^verbatim>\<open>typeof note === 'object' && note !== null && 'id' in note && 'text' in note\<close>.
  An array is an object too, but its properties are its indices and \<^verbatim>\<open>length\<close>, so it
  has neither \<^verbatim>\<open>id\<close> nor \<^verbatim>\<open>text\<close>.
\<close>

fun isNoteObject :: "json \<Rightarrow> bool" where
  "isNoteObject (JObj props) = (''id'' \<in> set (map fst props) \<and> ''text'' \<in> set (map fst props))"
| "isNoteObject other = False"

fun isValidImport :: "json \<Rightarrow> bool" where
  "isValidImport (JArr importedNotes) = list_all isNoteObject importedNotes"
| "isValidImport other = False"

fun elements :: "json \<Rightarrow> json list" where
  "elements (JArr xs) = xs"
| "elements other = []"

text \<open>
  \<^verbatim>\<open>note.id\<close>: an object gives the property or \<^verbatim>\<open>undefined\<close> (\<open>None\<close>), a
  primitive value or an array has no \<^verbatim>\<open>id\<close>, and reading a property of \<^verbatim>\<open>null\<close>
  throws.
\<close>

fun noteId :: "json \<Rightarrow> json option" where
  "noteId (JObj props) = map_of props ''id''"
| "noteId other = None"

definition idOf :: "json \<Rightarrow> error + json option" where
  "idOf n = (if n = JNull then Inl TypeError else Inr (noteId n))"

fun idsOf :: "json list \<Rightarrow> error + json option list" where
  "idsOf [] = Inr []"
| "idsOf (n # ns) =
     (case idOf n of
        Inl e \<Rightarrow> Inl e
      | Inr i \<Rightarrow> (case idsOf ns of Inl e \<Rightarrow> Inl e | Inr is \<Rightarrow> Inr (i # is)))"

text \<open>
  The comparison a \<^verbatim>\<open>Set\<close> makes. Primitive values are equal when they are the same
  value. Arrays and objects are equal only to themselves, and the identifiers of the
  stored notes and of the imported notes come from two different calls of
  \<^verbatim>\<open>JSON.parse\<close>, so such identifiers are never equal.
\<close>

fun primitive :: "json \<Rightarrow> bool" where
  "primitive (JArr xs) = False"
| "primitive (JObj props) = False"
| "primitive other = True"

definition sameValueZero :: "json option \<Rightarrow> json option \<Rightarrow> bool" where
  "sameValueZero x y =
     (case (x, y) of
        (None, None) \<Rightarrow> True
      | (Some a, Some b) \<Rightarrow> primitive a \<and> a = b
      | _ \<Rightarrow> False)"

definition has :: "json option list \<Rightarrow> json option \<Rightarrow> bool" where
  "has existingNoteIds v = list_ex (\<lambda>e. sameValueZero e v) existingNoteIds"

text \<open>
  The merge branch: the notes of the store, then the imported notes with a new
  identifier. The imported notes have passed the validation, so they are objects and
  reading their \<^verbatim>\<open>id\<close> does not throw.
\<close>

definition mergeNotes :: "json list \<Rightarrow> json list \<Rightarrow> error + json list" where
  "mergeNotes currentNotes importedNotes =
     (case idsOf currentNotes of
        Inl e \<Rightarrow> Inl e
      | Inr existingNoteIds \<Rightarrow>
          Inr (currentNotes @
               filter (\<lambda>importedNote. \<not> has existingNoteIds (noteId importedNote))
                 importedNotes))"

text \<open>
  \<^verbatim>\<open>renderAllNotes\<close> of \<^verbatim>\<open>script.js\<close> calls \<^verbatim>\<open>note.text.toLowerCase()\<close> on every stored
  note; the call throws unless the note is an object whose \<^verbatim>\<open>text\<close> is a string.
\<close>

fun renderable :: "json \<Rightarrow> bool" where
  "renderable (JObj props) =
     (case map_of props ''text'' of Some (JStr t) \<Rightarrow> True | _ \<Rightarrow> False)"
| "renderable other = False"

definition alert :: "message \<Rightarrow> 'n page \<Rightarrow> 'n page" where
  "alert m st = st\<lparr>alerts := alerts st @ [m]\<rparr>"

text \<open>
  The handler of \<^verbatim>\<open>script.js\<close>, from \<^verbatim>\<open>reader.onload\<close> on. \<open>file\<close> is the result of
  \<^verbatim>\<open>JSON.parse\<close> on the text of the file (\<open>None\<close> when it throws), \<open>mergeOption\<close> the
  answer to \<^verbatim>\<open>confirm\<close>. Whatever is thrown inside the \<^verbatim>\<open>try\<close> ends in the alert of the
  \<^verbatim>\<open>catch\<close>. The store is read before the question is asked.
\<close>

definition importNotes_local :: "json option \<Rightarrow> bool \<Rightarrow> json page \<Rightarrow> json page" where
  "importNotes_local file mergeOption st =
     (case file of
        None \<Rightarrow> alert Failed_to_import_notes st
      | Some importedNotes \<Rightarrow>
          if \<not> isValidImport importedNotes then alert Invalid_JSON_file_format st
          else
            (case loadNotes (item st) of
               Inl e \<Rightarrow> alert Failed_to_import_notes st
             | Inr currentNotes \<Rightarrow>
                 (case (if mergeOption then mergeNotes currentNotes (elements importedNotes)
                        else Inr (elements importedNotes)) of
                    Inl e \<Rightarrow> alert Failed_to_import_notes st
                  | Inr finalNotes \<Rightarrow>
                      if list_all renderable finalNotes
                      then (alert (Successfully_imported (length (elements importedNotes)))
                              (saveNotes finalNotes st))
                             \<lparr>savingIndicator := ''Notes Imported!''\<rparr>
                      else alert Failed_to_import_notes (saveNotes finalNotes st))))"

text \<open>
  The handler of \<^verbatim>\<open>public/script.js\<close>. It reads the store only in the merge branch,
  writes the item itself, and then renders the notes of the server.
\<close>

definition importNotes_api :: "json option \<Rightarrow> bool \<Rightarrow> json page \<Rightarrow> json page" where
  "importNotes_api file mergeOption st =
     (case file of
        None \<Rightarrow> alert Failed_to_import_notes st
      | Some importedNotes \<Rightarrow>
          if \<not> isValidImport importedNotes then alert Invalid_JSON_file_format st
          else
            (case (if mergeOption
                   then (case loadNotes (item st) of
                           Inl e \<Rightarrow> Inl e
                         | Inr currentNotes \<Rightarrow> mergeNotes currentNotes (elements importedNotes))
                   else Inr (elements importedNotes)) of
               Inl e \<Rightarrow> alert Failed_to_import_notes st
             | Inr finalNotes \<Rightarrow>
                 (alert (Successfully_imported (length (elements importedNotes)))
                    (st\<lparr>item := Stored finalNotes\<rparr>))
                   \<lparr>savingIndicator := ''Notes Imported!''\<rparr>))"

section \<open>The client of the REST API\<close>

text \<open>
  The outcome of \<^verbatim>\<open>fetch\<close>: the promise is rejected (the server cannot be reached), or
  there is a response with a status and a body; the body is \<open>None\<close> when
  \<^verbatim>\<open>response.json()\<close> fails.
\<close>

datatype 'b fetched = Rejected | Responded nat "'b option"

definition ok :: "nat \<Rightarrow> bool" where
  "ok status = (200 \<le> status \<and> status \<le> 299)"

text \<open>\<^verbatim>\<open>fetchNotes\<close> returns the notes together with what it wrote with \<^verbatim>\<open>console.error\<close>.\<close>

definition fetchNotes :: "sticky_note list fetched \<Rightarrow> sticky_note list \<times> string list" where
  "fetchNotes response =
     (case response of
        Rejected \<Rightarrow> ([], [''Failed to fetch notes:''])
      | Responded status body \<Rightarrow>
          if \<not> ok status then ([], [''Failed to fetch notes:''])
          else (case body of
                  None \<Rightarrow> ([], [''Failed to fetch notes:''])
                | Some notes \<Rightarrow> (notes, [])))"

definition initializeApp_api :: "sticky_note list fetched \<Rightarrow> sticky_note list" where
  "initializeApp_api response = renderAllNotes_api [] (fst (fetchNotes response))"

text \<open>
  \<^verbatim>\<open>updateNoteContent\<close> and \<^verbatim>\<open>deleteNote\<close> of \<^verbatim>\<open>public/script.js\<close>, given the outcome of
  their request: a response that is not \<^verbatim>\<open>ok\<close> is thrown and ends in the alert.
\<close>

definition updateNoteContent_api :: "'b fetched \<Rightarrow> 'n page \<Rightarrow> 'n page" where
  "updateNoteContent_api response st =
     (case response of
        Rejected \<Rightarrow> alert Failed_to_update_note st
      | Responded status body \<Rightarrow>
          if \<not> ok status then alert Failed_to_update_note st
          else st\<lparr>savingIndicator := ''Note updated!''\<rparr>)"

definition deleteNote_api :: "'b fetched \<Rightarrow> 'n page \<Rightarrow> 'n page" where
  "deleteNote_api response st =
     (case response of
        Rejected \<Rightarrow> alert Failed_to_delete_note st
      | Responded status body \<Rightarrow>
          if \<not> ok status then alert Failed_to_delete_note st
          else st\<lparr>savingIndicator := ''Note deleted!''\<rparr>)"

section \<open>The server\<close>

text \<open>
  A row of the table \<^verbatim>\<open>notes\<close>: \<^verbatim>\<open>id SERIAL PRIMARY KEY\<close>, \<^verbatim>\<open>text TEXT NOT NULL\<close>,
  \<^verbatim>\<open>pinned BOOLEAN DEFAULT FALSE\<close>, \<^verbatim>\<open>created_at\<close> with the time of insertion as
  default, \<^verbatim>\<open>due_date DATE\<close>, and the \<^verbatim>\<open>reminder_time\<close> that \<^verbatim>\<open>INSERT\<close> fills. A column
  that may hold \<^verbatim>\<open>NULL\<close> is an option.
\<close>

record row =
  row_id :: int
  row_text :: string
  row_pinned :: "bool option"
  created_at :: int
  due_date :: "int option"
  reminder_time :: "(nat \<times> nat) option"

record db =
  reachable :: bool
  notes_table :: "row list"

datatype db_error = ConnectionError | InvalidInteger | IntegerOutOfRange | NotNullViolation

text \<open>
  The identifier of a request is the segment of the URL after \<^verbatim>\<open>/api/notes/\<close>, a string
  that the query compares with the \<^verbatim>\<open>SERIAL\<close> column: the database reads it as an
  integer of 32 bits. The string reads as an integer (\<open>Numeral i\<close>) or does not
  (\<open>Malformed\<close>); in the second case, and for an integer outside the 32 bits, the query
  fails.
\<close>

datatype url_id = Malformed | Numeral int

definition int4 :: "int \<Rightarrow> bool" where
  "int4 i = (- 2147483648 \<le> i \<and> i \<le> 2147483647)"

definition id_param :: "url_id \<Rightarrow> db_error + int" where
  "id_param p =
     (case p of
        Malformed \<Rightarrow> Inl InvalidInteger
      | Numeral i \<Rightarrow> if int4 i then Inr i else Inl IntegerOutOfRange)"

text \<open>
  The body of a \<^verbatim>\<open>PUT\<close> request after \<^verbatim>\<open>const { text, pinned } = req.body\<close>: a field that
  the body does not have is \<^verbatim>\<open>undefined\<close>, which the query sends as \<^verbatim>\<open>NULL\<close>.
\<close>

record put_body =
  body_text :: "string option"
  body_pinned :: "bool option"

datatype reply = NoContent | ErrorJson string | RowJson row

record response =
  status :: nat
  reply :: reply

text \<open>
  \<^verbatim>\<open>UPDATE notes SET text = $1, pinned = $2 WHERE id = $3 RETURNING *\<close>: both columns of
  every row with the identifier are assigned; \<^verbatim>\<open>NULL\<close> for \<^verbatim>\<open>text\<close> violates the
  constraint of the column when there is such a row. The identifiers of the rows are
  integers of 32 bits.
\<close>

definition update_query ::
  "string option \<Rightarrow> bool option \<Rightarrow> url_id \<Rightarrow> db \<Rightarrow> db_error + (row list \<times> db)" where
  "update_query text_param pinned_param p d =
     (if \<not> reachable d then Inl ConnectionError
      else
        (case id_param p of
           Inl err \<Rightarrow> Inl err
         | Inr i \<Rightarrow>
             (case text_param of
                None \<Rightarrow>
                  if list_ex (\<lambda>r. row_id r = i) (notes_table d) then Inl NotNullViolation
                  else Inr ([], d)
              | Some t \<Rightarrow>
                  Inr (map (\<lambda>r. r\<lparr>row_text := t, row_pinned := pinned_param\<rparr>)
                         (filter (\<lambda>r. row_id r = i) (notes_table d)),
                       d\<lparr>notes_table :=
                           map (\<lambda>r. if row_id r = i
                                     then r\<lparr>row_text := t, row_pinned := pinned_param\<rparr>
                                     else r)
                             (notes_table d)\<rparr>))))"

text \<open>\<^verbatim>\<open>DELETE FROM notes WHERE id = $1 RETURNING *\<close>.\<close>

definition delete_query :: "url_id \<Rightarrow> db \<Rightarrow> db_error + (row list \<times> db)" where
  "delete_query p d =
     (if \<not> reachable d then Inl ConnectionError
      else
        (case id_param p of
           Inl err \<Rightarrow> Inl err
         | Inr i \<Rightarrow>
             Inr (filter (\<lambda>r. row_id r = i) (notes_table d),
                  d\<lparr>notes_table := filter (\<lambda>r. row_id r \<noteq> i) (notes_table d)\<rparr>)))"

text \<open>
  The handlers \<^verbatim>\<open>app.put('/api/notes/:id')\<close> and \<^verbatim>\<open>app.delete('/api/notes/:id')\<close>: a
  query that fails is caught and answered with 500.
\<close>

definition put_note :: "url_id \<Rightarrow> put_body \<Rightarrow> db \<Rightarrow> response \<times> db" where
  "put_note p body d =
     (case update_query (body_text body) (body_pinned body) p d of
        Inl err \<Rightarrow> (\<lparr>status = 500, reply = ErrorJson ''Internal server error''\<rparr>, d)
      | Inr (rows, d') \<Rightarrow>
          (case rows of
             [] \<Rightarrow> (\<lparr>status = 404, reply = ErrorJson ''Note not found''\<rparr>, d')
           | r # rest \<Rightarrow> (\<lparr>status = 200, reply = RowJson r\<rparr>, d')))"

definition delete_note :: "url_id \<Rightarrow> db \<Rightarrow> response \<times> db" where
  "delete_note p d =
     (case delete_query p d of
        Inl err \<Rightarrow> (\<lparr>status = 500, reply = ErrorJson ''Internal server error''\<rparr>, d)
      | Inr (rows, d') \<Rightarrow>
          (case rows of
             [] \<Rightarrow> (\<lparr>status = 404, reply = ErrorJson ''Note not found''\<rparr>, d')
           | r # rest \<Rightarrow> (\<lparr>status = 204, reply = NoContent\<rparr>, d')))"

section \<open>Stating the order of a list\<close>

text \<open>
  \<open>ordered_by out before\<close>: whenever \<open>before a b\<close> holds of two entries of \<open>out\<close>, the
  entry \<open>a\<close> stands at a smaller position than the entry \<open>b\<close>.
\<close>

definition ordered_by :: "'a list \<Rightarrow> ('a \<Rightarrow> 'a \<Rightarrow> bool) \<Rightarrow> bool" where
  "ordered_by out before =
     (\<forall>i<length out. \<forall>j<length out. before (out ! i) (out ! j) \<longrightarrow> i < j)"

text \<open>
  The order in which \<^verbatim>\<open>script.js\<close> renders: pinned notes first, and inside a part the
  comparator of its two sorts.
\<close>

definition localLe :: "sticky_note \<Rightarrow> sticky_note \<Rightarrow> bool" where
  "localLe a b =
     ((isPinned a \<or> \<not> isPinned b) \<and> (isPinned a = isPinned b \<longrightarrow> byCreated a b \<le> 0))"

text \<open>The part of the order that the comparator of the API client always respects.\<close>

definition pinnedLe :: "sticky_note \<Rightarrow> sticky_note \<Rightarrow> bool" where
  "pinnedLe a b = (isPinned a \<or> \<not> isPinned b)"

text \<open>
  The lists on which the comparator of the API client is consistent: no note has the
  flag \<^verbatim>\<open>null\<close> while another has the flag \<^verbatim>\<open>false\<close>.
\<close>

definition flagsAgree :: "sticky_note list \<Rightarrow> bool" where
  "flagsAgree N = (\<not> (\<exists>a\<in>set N. \<exists>b\<in>set N. pinned a = None \<and> pinned b = Some False))"

text \<open>The order of \<^verbatim>\<open>SELECT * FROM notes ORDER BY created_at DESC\<close>.\<close>

definition newestFirst :: "sticky_note list \<Rightarrow> bool" where
  "newestFirst N = sorted_wrt (\<lambda>a b. createdTime b \<le> createdTime a) N"

section \<open>Example data\<close>

text \<open>
  Four notes of the local client. The first three are those of the scenario of the
  specification: created on the first three days of 2025, the first due on 10 January
  2025 (day 20098), the second pinned. The fourth is due on the same day as the first
  and was created later.
\<close>

definition note1 :: sticky_note where
  "note1 = \<lparr> note_id = IdNum 1, note_text = ''Pay rent'', createdAt = Some 1735689600000,
             pinned = Some False, dueDate = Some (DateOnly 20098), reminderTime = None \<rparr>"

definition note2 :: sticky_note where
  "note2 = \<lparr> note_id = IdNum 2, note_text = ''Call Bob'', createdAt = Some 1735776000000,
             pinned = Some True, dueDate = None, reminderTime = None \<rparr>"

definition note3 :: sticky_note where
  "note3 = \<lparr> note_id = IdNum 3, note_text = ''bobsleigh'', createdAt = Some 1735862400000,
             pinned = Some False, dueDate = None, reminderTime = None \<rparr>"

definition note4 :: sticky_note where
  "note4 = \<lparr> note_id = IdNum 4, note_text = ''Buy milk'', createdAt = Some 1735948800000,
             pinned = Some False, dueDate = Some (DateOnly 20098), reminderTime = None \<rparr>"

text \<open>
  The same four notes as the server sends them: the due date is the timestamp of
  midnight of 10 January 2025.
\<close>

definition sent1 :: sticky_note where
  "sent1 = note1\<lparr>dueDate := Some (DateTime 1736467200000)\<rparr>"

definition sent4 :: sticky_note where
  "sent4 = note4\<lparr>dueDate := Some (DateTime 1736467200000)\<rparr>"

text \<open>
  Two notes of the server that are not pinned: the third note, with the flag \<^verbatim>\<open>false\<close>
  and no due date, and the fourth after an edit of its text, with the flag \<^verbatim>\<open>null\<close> and
  its due date.
\<close>

definition flag_false :: sticky_note where
  "flag_false = note3"

definition flag_null :: sticky_note where
  "flag_null = sent4\<lparr>pinned := None\<rparr>"

text \<open>
  A browser in universal time at noon of 11 January 2025 (day 20099), and a note of the
  server that was due the day before, with a reminder at 9:30.
\<close>

definition noon :: clock where
  "noon = \<lparr> today = 20099, instant = 1736596800000,
            atTime = (\<lambda>hours minutes. 1736553600000 + (int hours * 60 + int minutes) * 60000) \<rparr>"

definition sent_due :: sticky_note where
  "sent_due = sent1\<lparr>reminderTime := Some (9, 30)\<rparr>"

text \<open>A page with the notes in its store, and a page whose item cannot be parsed.\<close>

definition page1 :: "sticky_note page" where
  "page1 = \<lparr> item = Stored [note1, note2, note3], savingIndicator = [], alerts = [] \<rparr>"

definition page_corrupt :: "sticky_note page" where
  "page_corrupt = \<lparr> item = Corrupt, savingIndicator = [], alerts = [] \<rparr>"

text \<open>A table with one pinned row, and two request bodies with one field each.\<close>

definition row1 :: row where
  "row1 = \<lparr> row_id = 1, row_text = ''Pay rent'', row_pinned = Some True,
            created_at = 1735689600000, due_date = Some 20098, reminder_time = None \<rparr>"

definition db1 :: db where
  "db1 = \<lparr> reachable = True, notes_table = [row1] \<rparr>"

definition text_only :: put_body where
  "text_only = \<lparr> body_text = Some ''x'', body_pinned = None \<rparr>"

definition pinned_only :: put_body where
  "pinned_only = \<lparr> body_text = None, body_pinned = Some False \<rparr>"

text \<open>An update that supplies the text only.\<close>

definition new_text :: updates where
  "new_text = \<lparr> upd_id = None, upd_text = Some ''x'', upd_createdAt = None, upd_pinned = None,
                upd_dueDate = None, upd_reminderTime = None \<rparr>"

text \<open>
  The snapshots of the import scenario: the store holds a note with identifier 5; the
  file holds another note with identifier 5 and a note with identifier 6.
\<close>

definition old5 :: json where
  "old5 = JObj [(''id'', JNum 5), (''text'', JStr ''old'')]"

definition hi5 :: json where
  "hi5 = JObj [(''id'', JNum 5), (''text'', JStr ''hi'')]"

definition new6 :: json where
  "new6 = JObj [(''id'', JNum 6), (''text'', JStr ''new'')]"

definition page5 :: "json page" where
  "page5 = \<lparr> item = Stored [old5], savingIndicator = [], alerts = [] \<rparr>"

section \<open>Properties of the sort\<close>

lemma mset_insertBy: "mset (insertBy cmp x ys) = add_mset x (mset ys)"
  by (induction ys) auto

lemma mset_sortBy: "mset (sortBy cmp xs) = mset xs"
  by (induction xs) (auto simp: mset_insertBy)

lemma set_insertBy: "set (insertBy cmp x ys) = insert x (set ys)"
  by (induction ys) auto

lemma set_sortBy: "set (sortBy cmp xs) = set xs"
  by (induction xs) (auto simp: set_insertBy)

text \<open>
  The result is sorted with respect to every transitive relation that the comparator
  decides on the elements of the list.
\<close>

lemma sorted_wrt_insertBy:
  assumes le: "\<And>y. y \<in> set ys \<Longrightarrow> cmp x y \<le> 0 \<Longrightarrow> R x y"
      and gt: "\<And>y. y \<in> set ys \<Longrightarrow> \<not> cmp x y \<le> 0 \<Longrightarrow> R y x"
      and tr: "\<And>y z. y \<in> set ys \<Longrightarrow> z \<in> set ys \<Longrightarrow> R x y \<Longrightarrow> R y z \<Longrightarrow> R x z"
      and srt: "sorted_wrt R ys"
  shows "sorted_wrt R (insertBy cmp x ys)"
  using assms
proof (induction ys)
  case Nil
  then show ?case by simp
next
  case (Cons y ys)
  show ?case
  proof (cases "cmp x y \<le> 0")
    case True
    then have xy: "R x y" using Cons.prems(1) by simp
    have "R x z" if "z \<in> set ys" for z
      using that xy Cons.prems(3) [of y z] Cons.prems(4) by simp
    with True xy Cons.prems(4) show ?thesis by simp
  next
    case False
    then have yx: "R y x" using Cons.prems(2) by simp
    have "sorted_wrt R (insertBy cmp x ys)"
    proof (rule Cons.IH)
      show "sorted_wrt R ys" using Cons.prems(4) by simp
    qed (use Cons.prems in auto)
    with False yx Cons.prems(4) show ?thesis by (simp add: set_insertBy)
  qed
qed

lemma sorted_wrt_sortBy_on:
  assumes le: "\<And>x y. x \<in> S \<Longrightarrow> y \<in> S \<Longrightarrow> cmp x y \<le> 0 \<Longrightarrow> R x y"
      and gt: "\<And>x y. x \<in> S \<Longrightarrow> y \<in> S \<Longrightarrow> \<not> cmp x y \<le> 0 \<Longrightarrow> R y x"
      and tr: "\<And>x y z. x \<in> S \<Longrightarrow> y \<in> S \<Longrightarrow> z \<in> S \<Longrightarrow> R x y \<Longrightarrow> R y z \<Longrightarrow> R x z"
  shows "set xs \<subseteq> S \<Longrightarrow> sorted_wrt R (sortBy cmp xs)"
proof (induction xs)
  case Nil
  then show ?case by simp
next
  case (Cons x xs)
  from Cons.prems have x: "x \<in> S" and xs: "set xs \<subseteq> S" by simp_all
  have ih: "sorted_wrt R (sortBy cmp xs)" by (rule Cons.IH [OF xs])
  have mem: "y \<in> S" if "y \<in> set (sortBy cmp xs)" for y
    using that xs by (auto simp: set_sortBy)
  show ?case
    unfolding sortBy.simps
  proof (rule sorted_wrt_insertBy [OF _ _ _ ih])
    fix y assume "y \<in> set (sortBy cmp xs)" "cmp x y \<le> 0"
    then show "R x y" using le [OF x mem] by blast
  next
    fix y assume "y \<in> set (sortBy cmp xs)" "\<not> cmp x y \<le> 0"
    then show "R y x" using gt [OF x mem] by blast
  next
    fix y z assume "y \<in> set (sortBy cmp xs)" "z \<in> set (sortBy cmp xs)" "R x y" "R y z"
    then show "R x z" using tr [OF x mem mem] by blast
  qed
qed

lemma sorted_wrt_sortBy:
  assumes "\<And>x y. x \<in> set xs \<Longrightarrow> y \<in> set xs \<Longrightarrow> cmp x y \<le> 0 \<Longrightarrow> R x y"
      and "\<And>x y. x \<in> set xs \<Longrightarrow> y \<in> set xs \<Longrightarrow> \<not> cmp x y \<le> 0 \<Longrightarrow> R y x"
      and "\<And>x y z. x \<in> set xs \<Longrightarrow> y \<in> set xs \<Longrightarrow> z \<in> set xs \<Longrightarrow>
             R x y \<Longrightarrow> R y z \<Longrightarrow> R x z"
  shows "sorted_wrt R (sortBy cmp xs)"
  by (rule sorted_wrt_sortBy_on [of "set xs", OF assms]) simp_all

text \<open>
  The sort is stable: elements that the comparator does not put after one another keep
  the order they had.
\<close>

lemma filter_insertBy:
  assumes "\<And>y. P x \<Longrightarrow> P y \<Longrightarrow> cmp x y \<le> 0"
  shows "filter P (insertBy cmp x ys) = (if P x then x # filter P ys else filter P ys)"
  using assms by (induction ys) auto

lemma filter_sortBy:
  assumes "\<And>x y. P x \<Longrightarrow> P y \<Longrightarrow> cmp x y \<le> 0"
  shows "filter P (sortBy cmp xs) = filter P xs"
  using assms by (induction xs) (auto simp: filter_insertBy)

text \<open>From a sorted list to the positions of its entries.\<close>

lemma ordered_byI:
  assumes "sorted_wrt le out" and "\<And>x. x \<in> set out \<Longrightarrow> le x x"
      and "\<And>a b. a \<in> set out \<Longrightarrow> b \<in> set out \<Longrightarrow> before a b \<Longrightarrow> \<not> le b a"
  shows "ordered_by out before"
  unfolding ordered_by_def
proof (intro allI impI)
  fix i j
  assume i: "i < length out" and j: "j < length out" and b: "before (out ! i) (out ! j)"
  from i j have mem: "out ! i \<in> set out" "out ! j \<in> set out" by simp_all
  show "i < j"
  proof (rule ccontr)
    assume "\<not> i < j"
    then consider "j < i" | "i = j" by linarith
    then show False
    proof cases
      case 1
      with assms(1) i have "le (out ! j) (out ! i)" by (simp add: sorted_wrt_iff_nth_less)
      with assms(3) [OF mem b] show False by simp
    next
      case 2
      with assms(2) [OF mem(1)] assms(3) [OF mem b] show False by simp
    qed
  qed
qed

lemma ordered_by_weaken:
  assumes "ordered_by out before"
      and "\<And>a b. a \<in> set out \<Longrightarrow> b \<in> set out \<Longrightarrow> before' a b \<Longrightarrow> before a b"
  shows "ordered_by out before'"
  using assms unfolding ordered_by_def by (meson nth_mem)

lemma sorted_wrt_filter_nth:
  assumes "sorted_wrt Q (filter P xs)" and "j < i" and "i < length xs"
      and "P (xs ! j)" and "P (xs ! i)"
  shows "Q (xs ! j) (xs ! i)"
  using assms
proof (induction xs arbitrary: i j)
  case Nil
  then show ?case by simp
next
  case (Cons x xs)
  from Cons.prems(2) obtain i' where i': "i = Suc i'" by (cases i) auto
  show ?case
  proof (cases j)
    case 0
    with Cons.prems i' have "P x" and "xs ! i' \<in> set (filter P xs)" by auto
    with Cons.prems(1) 0 i' show ?thesis by auto
  next
    case (Suc j')
    have "sorted_wrt Q (filter P xs)" using Cons.prems(1) by (auto split: if_splits)
    from Cons.IH [OF this, of j' i'] Cons.prems Suc i' show ?thesis by simp
  qed
qed

section \<open>The view: filter and order\<close>

text \<open>
  The comparator of the API client puts a pinned note before a note that is not pinned,
  whatever the flags are.
\<close>

lemma compareNotes_refl: "compareNotes x x \<le> 0"
  by (auto simp: compareNotes_def split: option.splits)

lemma compareNotes_pinnedLe: "compareNotes a b \<le> 0 \<Longrightarrow> pinnedLe a b"
  by (auto simp: compareNotes_def pinnedLe_def isPinned_def split: if_splits)

lemma compareNotes_pinnedGe: "\<not> compareNotes a b \<le> 0 \<Longrightarrow> pinnedLe b a"
  by (auto simp: compareNotes_def pinnedLe_def isPinned_def split: if_splits)

lemma sorted_api_pinned: "sorted_wrt pinnedLe (renderAllNotes_api s N)"
  unfolding renderAllNotes_api_def
  by (rule sorted_wrt_sortBy)
     (auto simp: compareNotes_pinnedLe compareNotes_pinnedGe, auto simp: pinnedLe_def)

text \<open>
  It is total and transitive on notes whose flags agree: the same truthiness, the same
  flag. On a note with the flag \<^verbatim>\<open>false\<close> and a note with the flag \<^verbatim>\<open>null\<close> it answers 1
  in both directions.
\<close>

lemma flagsAgree_same:
  assumes "flagsAgree N" and "a \<in> set N" and "b \<in> set N" and "isPinned a = isPinned b"
  shows "pinned a = pinned b"
proof (cases "pinned a")
  case None
  with assms show ?thesis by (cases "pinned b") (auto simp: flagsAgree_def isPinned_def)
next
  case (Some x)
  with assms show ?thesis by (cases "pinned b") (auto simp: flagsAgree_def isPinned_def)
qed

lemma compareNotes_total:
  assumes "pinned a = pinned b \<or> isPinned a \<noteq> isPinned b"
  shows "compareNotes a b \<le> 0 \<or> compareNotes b a \<le> 0"
  using assms by (auto simp: compareNotes_def isPinned_def split: option.splits)

lemma compareNotes_trans:
  assumes "pinned a = pinned b \<or> isPinned a \<noteq> isPinned b"
      and "pinned b = pinned c \<or> isPinned b \<noteq> isPinned c"
      and "pinned a = pinned c \<or> isPinned a \<noteq> isPinned c"
      and "compareNotes a b \<le> 0" and "compareNotes b c \<le> 0"
  shows "compareNotes a c \<le> 0"
  using assms by (auto simp: compareNotes_def isPinned_def split: option.splits if_splits)

lemma sorted_api:
  assumes "flagsAgree N"
  shows "sorted_wrt (\<lambda>a b. compareNotes a b \<le> 0) (renderAllNotes_api s N)"
  unfolding renderAllNotes_api_def
proof (rule sorted_wrt_sortBy)
  fix x y assume "x \<in> set (filter (matches s) N)" "y \<in> set (filter (matches s) N)"
    "\<not> compareNotes x y \<le> 0"
  then show "compareNotes y x \<le> 0"
    using compareNotes_total [of x y] flagsAgree_same [OF assms, of x y] by auto
next
  fix x y z
  assume "x \<in> set (filter (matches s) N)" "y \<in> set (filter (matches s) N)"
    "z \<in> set (filter (matches s) N)" "compareNotes x y \<le> 0" "compareNotes y z \<le> 0"
  then show "compareNotes x z \<le> 0"
    using flagsAgree_same [OF assms, of x y] flagsAgree_same [OF assms, of y z]
      flagsAgree_same [OF assms, of x z]
    by (intro compareNotes_trans [of x y z]) auto
qed

lemma compareNotes_null_false:
  "pinned a = Some False \<Longrightarrow> pinned b = None \<Longrightarrow>
   compareNotes a b = 1 \<and> compareNotes b a = 1"
  by (simp add: compareNotes_def isPinned_def)

lemma localLe_refl: "localLe x x"
  by (simp add: localLe_def byCreated_def)

lemma sorted_local: "sorted_wrt localLe (renderAllNotes_local s N)"
proof -
  let ?F = "filter (matches s) N"
  have p1: "sorted_wrt (\<lambda>a b. byCreated a b \<le> 0) (sortBy byCreated (filter isPinned ?F))"
    by (rule sorted_wrt_sortBy) (auto simp: byCreated_def)
  have u1: "sorted_wrt (\<lambda>a b. byCreated a b \<le> 0)
              (sortBy byCreated (filter (\<lambda>n. \<not> isPinned n) ?F))"
    by (rule sorted_wrt_sortBy) (auto simp: byCreated_def)
  have p2: "sorted_wrt localLe (sortBy byCreated (filter isPinned ?F))"
    by (rule sorted_wrt_mono_rel [OF _ p1]) (auto simp: localLe_def set_sortBy)
  have u2: "sorted_wrt localLe (sortBy byCreated (filter (\<lambda>n. \<not> isPinned n) ?F))"
    by (rule sorted_wrt_mono_rel [OF _ u1]) (auto simp: localLe_def set_sortBy)
  show ?thesis
    unfolding renderAllNotes_local_def Let_def
    using p2 u2 by (auto simp: sorted_wrt_append set_sortBy localLe_def)
qed

lemma stable_api:
  "filter (\<lambda>n. pinned n = p \<and> (\<exists>x. dueDate n = Some x \<and> getTime x = t))
     (renderAllNotes_api s N) =
   filter (\<lambda>n. pinned n = p \<and> (\<exists>x. dueDate n = Some x \<and> getTime x = t))
     (filter (matches s) N)"
  unfolding renderAllNotes_api_def
  by (rule filter_sortBy) (auto simp: compareNotes_def)

lemma ordered_api:
  assumes "flagsAgree N"
      and "\<And>a b. before a b \<Longrightarrow> \<not> compareNotes b a \<le> 0"
  shows "ordered_by (renderAllNotes_api s N) before"
  by (rule ordered_byI [OF sorted_api [OF assms(1)] compareNotes_refl assms(2)])

lemma tiebreak_api:
  assumes "newestFirst N"
  shows "ordered_by (renderAllNotes_api s N)
     (\<lambda>a b. pinned a = pinned b \<and>
            (\<exists>x y. dueDate a = Some x \<and> dueDate b = Some y \<and> getTime x = getTime y) \<and>
            createdTime b < createdTime a)"
  unfolding ordered_by_def
proof (intro allI impI)
  let ?out = "renderAllNotes_api s N"
  let ?Q = "\<lambda>a b. createdTime b \<le> createdTime a"
  fix i j
  assume i: "i < length ?out" and j: "j < length ?out"
    and b: "pinned (?out ! i) = pinned (?out ! j) \<and>
            (\<exists>x y. dueDate (?out ! i) = Some x \<and> dueDate (?out ! j) = Some y \<and>
                   getTime x = getTime y) \<and>
            createdTime (?out ! j) < createdTime (?out ! i)"
  then obtain x where x: "dueDate (?out ! i) = Some x" by blast
  define P where "P = (\<lambda>n::sticky_note. pinned n = pinned (?out ! i) \<and>
                          (\<exists>y. dueDate n = Some y \<and> getTime y = getTime x))"
  have Pi: "P (?out ! i)" and Pj: "P (?out ! j)" using b x by (auto simp: P_def)
  have "sorted_wrt ?Q (filter P (filter (matches s) N))"
    using assms by (simp add: newestFirst_def sorted_wrt_filter)
  then have srt: "sorted_wrt ?Q (filter P ?out)"
    unfolding P_def by (simp add: stable_api)
  show "i < j"
  proof (rule ccontr)
    assume "\<not> i < j"
    then consider "j < i" | "i = j" by linarith
    then show False
    proof cases
      case 1
      from sorted_wrt_filter_nth [OF srt 1 i Pj Pi] b show False by simp
    next
      case 2
      with b show False by simp
    qed
  qed
qed

lemma set_api: "set (renderAllNotes_api s N) \<subseteq> set N"
  by (auto simp: renderAllNotes_api_def set_sortBy)

lemma tiebreak_api_partition:
  assumes "flagsAgree N" and "newestFirst N"
  shows "ordered_by (renderAllNotes_api s N)
     (\<lambda>a b. isPinned a = isPinned b \<and>
            (\<exists>x y. dueDate a = Some x \<and> dueDate b = Some y \<and> getTime x = getTime y) \<and>
            createdTime b < createdTime a)"
proof (rule ordered_by_weaken [OF tiebreak_api [OF assms(2)]])
  fix a b
  assume "a \<in> set (renderAllNotes_api s N)" and "b \<in> set (renderAllNotes_api s N)"
  then have "a \<in> set N" and "b \<in> set N" using set_api by blast+
  moreover assume "isPinned a = isPinned b \<and>
            (\<exists>x y. dueDate a = Some x \<and> dueDate b = Some y \<and> getTime x = getTime y) \<and>
            createdTime b < createdTime a"
  ultimately show "pinned a = pinned b \<and>
            (\<exists>x y. dueDate a = Some x \<and> dueDate b = Some y \<and> getTime x = getTime y) \<and>
            createdTime b < createdTime a"
    using flagsAgree_same [OF assms(1), of a b] by blast
qed

text \<open>\<^verbatim>\<open>includes\<close> finds the term somewhere in the text.\<close>

lemma startsWith_iff: "startsWith h t \<longleftrightarrow> (\<exists>q. h = t @ q)"
  by (induction h t rule: startsWith.induct) auto

lemma includes_str_iff: "includes_str h t \<longleftrightarrow> (\<exists>p q. h = p @ t @ q)"
proof (induction h)
  case Nil
  then show ?case by (simp add: startsWith_iff)
next
  case (Cons d ds)
  show ?case
  proof
    assume "includes_str (d # ds) t"
    then consider "startsWith (d # ds) t" | "includes_str ds t" by auto
    then show "\<exists>p q. d # ds = p @ t @ q"
    proof cases
      case 1
      then obtain q where "d # ds = t @ q" by (auto simp: startsWith_iff)
      then have "d # ds = [] @ t @ q" by simp
      then show ?thesis by blast
    next
      case 2
      with Cons.IH obtain p q where "ds = p @ t @ q" by blast
      then have "d # ds = (d # p) @ t @ q" by simp
      then show ?thesis by blast
    qed
  next
    assume "\<exists>p q. d # ds = p @ t @ q"
    then obtain p q where pq: "d # ds = p @ t @ q" by blast
    show "includes_str (d # ds) t"
    proof (cases p)
      case Nil
      with pq have "startsWith (d # ds) t" by (auto simp: startsWith_iff)
      then show ?thesis by simp
    next
      case (Cons e p')
      with pq have "ds = p' @ t @ q" by simp
      with Cons.IH have "includes_str ds t" by blast
      then show ?thesis by simp
    qed
  qed
qed

lemma includes_str_empty: "includes_str h []"
  by (induction h) auto

lemma matches_iff:
  "matches s n \<longleftrightarrow> (\<exists>p q. toLowerCase (note_text n) = p @ toLowerCase s @ q)"
  by (simp add: matches_def includes_str_iff)

lemma mset_api: "mset (renderAllNotes_api s N) = filter_mset (matches s) (mset N)"
  by (simp add: renderAllNotes_api_def mset_sortBy)

lemma mset_local: "mset (renderAllNotes_local s N) = filter_mset (matches s) (mset N)"
  by (simp add: renderAllNotes_local_def Let_def mset_sortBy) (simp add: multiset_eq_iff)

text \<open>What the two clients render for the example notes.\<close>

lemma example_api:
  "renderAllNotes_api [] [note1, note2, note3] = [note2, note1, note3]"
  by code_simp

lemma example_local:
  "renderAllNotes_local [] [note1, note2, note3] = [note2, note3, note1]"
  by code_simp

lemma example_search:
  "renderAllNotes_api ''BOB'' [note1, note2, note3] = [note2, note3]"
  by code_simp

text \<open>
  With flags that do not agree the order depends on the engine. An engine that sorts by
  insertion renders the note with the flag \<^verbatim>\<open>false\<close> and no due date before the note with
  the flag \<^verbatim>\<open>null\<close> and a due date.
\<close>

lemma example_null_flag:
  "newestFirst [flag_null, flag_false, note2] \<and>
   renderAllNotes_api [] [flag_null, flag_false, note2] = [note2, flag_false, flag_null]"
  by code_simp

lemma example_sent:
  "renderAllNotes_api [] [sent4, note3, note2, sent1] = [note2, sent4, sent1, note3]"
  by code_simp

lemma example_sent_local:
  "renderAllNotes_local [] [sent4, note3, note2, sent1] = [note2, sent4, note3, sent1]"
  by code_simp

text \<open>
  Claim C9. For every note list \<open>N\<close> and search term \<open>s\<close>, the rendered list of either
  client holds exactly the notes of \<open>N\<close>, each as often as in \<open>N\<close>, whose lower-cased text
  contains the lower-cased term somewhere; with the empty term it holds every note.
\<close>

theorem search_filter:
  "mset (renderAllNotes_api s N) =
     {# n \<in># mset N. \<exists>p q. toLowerCase (note_text n) = p @ toLowerCase s @ q #} \<and>
   mset (renderAllNotes_local s N) =
     {# n \<in># mset N. \<exists>p q. toLowerCase (note_text n) = p @ toLowerCase s @ q #} \<and>
   mset (renderAllNotes_api [] N) = mset N \<and>
   mset (renderAllNotes_local [] N) = mset N"
proof -
  have m: "matches s = (\<lambda>n. \<exists>p q. toLowerCase (note_text n) = p @ toLowerCase s @ q)" for s
    by (rule ext) (rule matches_iff)
  have e: "matches [] = (\<lambda>n. True)"
    by (rule ext) (simp add: matches_def toLowerCase_def includes_str_empty)
  show ?thesis
    using mset_api [of s N] mset_local [of s N] mset_api [of "[]" N] mset_local [of "[]" N]
    by (simp add: m [symmetric] e)
qed

theorem search_filter_witness:
  "{# n \<in># mset [note1, note2, note3].
      \<exists>p q. toLowerCase (note_text n) = p @ toLowerCase ''BOB'' @ q #} = mset [note2, note3] \<and>
   mset (renderAllNotes_local [] [note1, note2, note3]) = mset [note1, note2, note3]"
  using search_filter [of "''BOB''" "[note1, note2, note3]"] example_search
  by simp

text \<open>
  Claim C8. For every note list \<open>N\<close> and search term \<open>s\<close>, in the rendered list of either
  client every pinned note stands before every note that is not pinned, whatever their
  due dates and creation instants. A note is pinned when its flag is \<^verbatim>\<open>true\<close>; the flags
  \<^verbatim>\<open>false\<close> and \<^verbatim>\<open>null\<close> both make it a note that is not pinned.
\<close>

theorem pinned_first:
  "ordered_by (renderAllNotes_api s N) (\<lambda>a b. isPinned a \<and> \<not> isPinned b) \<and>
   ordered_by (renderAllNotes_local s N) (\<lambda>a b. isPinned a \<and> \<not> isPinned b)"
proof
  show "ordered_by (renderAllNotes_api s N) (\<lambda>a b. isPinned a \<and> \<not> isPinned b)"
    by (rule ordered_byI [OF sorted_api_pinned]) (auto simp: pinnedLe_def)
  show "ordered_by (renderAllNotes_local s N) (\<lambda>a b. isPinned a \<and> \<not> isPinned b)"
    by (rule ordered_byI [OF sorted_local localLe_refl]) (auto simp: localLe_def)
qed

theorem pinned_first_witness:
  "renderAllNotes_api [] [note1, note2, note3] = [note2, note1, note3] \<and>
   renderAllNotes_local [] [note1, note2, note3] = [note2, note3, note1] \<and>
   isPinned note2 \<and> \<not> isPinned note1 \<and> \<not> isPinned note3 \<and>
   ordered_by [note2, note1, note3] (\<lambda>a b. isPinned a \<and> \<not> isPinned b) \<and>
   ordered_by [note2, note3, note1] (\<lambda>a b. isPinned a \<and> \<not> isPinned b)"
  using pinned_first [of "[]" "[note1, note2, note3]"]
  unfolding example_api example_local
  by (simp add: isPinned_def note1_def note2_def note3_def)

text \<open>
  Claim C1, as the code has it. The local client (\<^verbatim>\<open>script.js\<close>) does not look at due
  dates: among the notes with the same pin state it renders a note created later before
  a note created earlier. The API client (\<^verbatim>\<open>public/script.js\<close>) orders by due date when
  its comparator is consistent, that is for every note list that does not hold a note
  with the flag \<^verbatim>\<open>null\<close> beside a note with the flag \<^verbatim>\<open>false\<close>. Then, among the notes with
  the same pin state, every note with a due date stands before every note without one,
  a note with a strictly earlier due date before a note with a later one, and of two
  notes without a due date the one created later first; notes with the same flag and
  the same due date keep the order in which the list had them, so when the list comes
  newest first, as the server sends it, the one created later stands first among them
  too.
\<close>

theorem due_order:
  "(flagsAgree N \<longrightarrow>
      ordered_by (renderAllNotes_api s N)
        (\<lambda>a b. isPinned a = isPinned b \<and> dueDate a \<noteq> None \<and> dueDate b = None) \<and>
      ordered_by (renderAllNotes_api s N)
        (\<lambda>a b. isPinned a = isPinned b \<and>
               (\<exists>x y. dueDate a = Some x \<and> dueDate b = Some y \<and> getTime x < getTime y)) \<and>
      ordered_by (renderAllNotes_api s N)
        (\<lambda>a b. isPinned a = isPinned b \<and> dueDate a = None \<and> dueDate b = None \<and>
               createdTime b < createdTime a) \<and>
      filter (\<lambda>n. pinned n = p \<and> (\<exists>x. dueDate n = Some x \<and> getTime x = t))
          (renderAllNotes_api s N) =
        filter (\<lambda>n. pinned n = p \<and> (\<exists>x. dueDate n = Some x \<and> getTime x = t))
          (filter (matches s) N) \<and>
      (newestFirst N \<longrightarrow>
         ordered_by (renderAllNotes_api s N)
           (\<lambda>a b. isPinned a = isPinned b \<and>
                  (\<exists>x y. dueDate a = Some x \<and> dueDate b = Some y \<and> getTime x = getTime y) \<and>
                  createdTime b < createdTime a))) \<and>
   ordered_by (renderAllNotes_local s N)
     (\<lambda>a b. isPinned a = isPinned b \<and> createdTime b < createdTime a)"
proof (intro conjI impI)
  assume f: "flagsAgree N"
  show "ordered_by (renderAllNotes_api s N)
        (\<lambda>a b. isPinned a = isPinned b \<and> dueDate a \<noteq> None \<and> dueDate b = None)"
    by (rule ordered_api [OF f])
       (auto simp: compareNotes_def isPinned_def split: option.splits if_splits)
  show "ordered_by (renderAllNotes_api s N)
        (\<lambda>a b. isPinned a = isPinned b \<and>
               (\<exists>x y. dueDate a = Some x \<and> dueDate b = Some y \<and> getTime x < getTime y))"
    by (rule ordered_api [OF f])
       (auto simp: compareNotes_def isPinned_def split: option.splits if_splits)
  show "ordered_by (renderAllNotes_api s N)
        (\<lambda>a b. isPinned a = isPinned b \<and> dueDate a = None \<and> dueDate b = None \<and>
               createdTime b < createdTime a)"
    by (rule ordered_api [OF f])
       (auto simp: compareNotes_def isPinned_def split: option.splits if_splits)
  show "filter (\<lambda>n. pinned n = p \<and> (\<exists>x. dueDate n = Some x \<and> getTime x = t))
          (renderAllNotes_api s N) =
        filter (\<lambda>n. pinned n = p \<and> (\<exists>x. dueDate n = Some x \<and> getTime x = t))
          (filter (matches s) N)"
    by (rule stable_api)
  assume "newestFirst N"
  with f show "ordered_by (renderAllNotes_api s N)
           (\<lambda>a b. isPinned a = isPinned b \<and>
                  (\<exists>x y. dueDate a = Some x \<and> dueDate b = Some y \<and> getTime x = getTime y) \<and>
                  createdTime b < createdTime a)"
    by (rule tiebreak_api_partition)
next
  show "ordered_by (renderAllNotes_local s N)
     (\<lambda>a b. isPinned a = isPinned b \<and> createdTime b < createdTime a)"
    by (rule ordered_byI [OF sorted_local localLe_refl]) (auto simp: localLe_def byCreated_def)
qed

text \<open>
  The claim as the specification words it fails. The local client renders \<open>note3\<close>,
  which has no due date, before \<open>note1\<close>, which has one and the same pin state. In the
  API client the comparator, asked about a note with the flag \<^verbatim>\<open>false\<close> and no due date
  and a note with the flag \<^verbatim>\<open>null\<close> and a due date, answers in both directions that the
  first comes after the second: the order of the two is the choice of the engine.
\<close>

theorem due_order_counterexample:
  "renderAllNotes_local [] [note1, note3] = [note3, note1] \<and>
   isPinned note3 = isPinned note1 \<and> dueDate note3 = None \<and> dueDate note1 \<noteq> None \<and>
   compareNotes flag_false flag_null = 1 \<and> compareNotes flag_null flag_false = 1 \<and>
   isPinned flag_false = isPinned flag_null \<and>
   dueDate flag_false = None \<and> dueDate flag_null \<noteq> None"
  by code_simp

theorem due_order_witness:
  "flagsAgree [sent4, note3, note2, sent1] \<and> newestFirst [sent4, note3, note2, sent1] \<and>
   renderAllNotes_api [] [sent4, note3, note2, sent1] = [note2, sent4, sent1, note3] \<and>
   ordered_by [note2, sent4, sent1, note3]
     (\<lambda>a b. isPinned a = isPinned b \<and> dueDate a \<noteq> None \<and> dueDate b = None) \<and>
   ordered_by [note2, sent4, sent1, note3]
     (\<lambda>a b. isPinned a = isPinned b \<and>
            (\<exists>x y. dueDate a = Some x \<and> dueDate b = Some y \<and> getTime x = getTime y) \<and>
            createdTime b < createdTime a) \<and>
   dueDate sent4 = dueDate sent1 \<and> createdTime sent1 < createdTime sent4 \<and>
   renderAllNotes_local [] [sent4, note3, note2, sent1] = [note2, sent4, note3, sent1] \<and>
   ordered_by [note2, sent4, note3, sent1]
     (\<lambda>a b. isPinned a = isPinned b \<and> createdTime b < createdTime a)"
proof -
  have f: "flagsAgree [sent4, note3, note2, sent1]"
    by (simp add: flagsAgree_def sent4_def sent1_def note1_def note2_def note3_def note4_def)
  have n: "newestFirst [sent4, note3, note2, sent1]"
    by (simp add: newestFirst_def createdTime_def sent4_def sent1_def note1_def note2_def
        note3_def note4_def)
  have d: "dueDate sent4 = dueDate sent1 \<and> createdTime sent1 < createdTime sent4"
    by (simp add: createdTime_def sent4_def sent1_def note1_def note4_def)
  show ?thesis
    using due_order [of "[sent4, note3, note2, sent1]" "[]"] f n d
    unfolding example_sent example_sent_local by simp
qed

section \<open>The colour of a note\<close>

text \<open>
  On a due date without time, the form its documentation names, the classification is
  the one of the specification: overdue when the due date is before today, or is today
  and the reminder of today has passed; due today when the due date is today and no
  reminder has passed; due tomorrow when the due date is the day after today; the
  default class for every later due date and for every note without a due date. On a
  timestamp the result is the default class, and \<^verbatim>\<open>isDateOverdue\<close> is false.
\<close>

lemma color_class_date_only:
  "(due < today clk \<longrightarrow> getNoteColorClass clk (Some (DateOnly due)) r = color_overdue) \<and>
   (due = today clk \<and> r = Some (h, m) \<and> atTime clk h m < instant clk \<longrightarrow>
      getNoteColorClass clk (Some (DateOnly due)) r = color_overdue) \<and>
   (due = today clk \<and> \<not> (\<exists>h m. r = Some (h, m) \<and> atTime clk h m < instant clk) \<longrightarrow>
      getNoteColorClass clk (Some (DateOnly due)) r = color_due_today) \<and>
   (due = today clk + 1 \<longrightarrow> getNoteColorClass clk (Some (DateOnly due)) r = color_due_tomorrow) \<and>
   (today clk + 1 < due \<longrightarrow> getNoteColorClass clk (Some (DateOnly due)) r = color_default) \<and>
   getNoteColorClass clk None r = color_default \<and>
   (isDateOverdue clk (Some (DateOnly due)) \<longleftrightarrow> due < today clk)"
  by (auto simp: getNoteColorClass_def isDateOverdue_def Let_def split: option.splits)

lemma color_class_timestamp:
  "getNoteColorClass clk (Some (DateTime t)) r = color_default"
  "isDateOverdue clk (Some (DateTime t)) = False"
  by (auto simp: getNoteColorClass_def isDateOverdue_def Let_def split: option.splits)

text \<open>
  Claim C7. With the clock fixed, a note whose due date is before today is classified as
  overdue, and so on for the other classes. \<^verbatim>\<open>renderNote\<close> of the API client does not
  arrive there: it passes the due date as the server sends it, a timestamp, the suffix
  \<^verbatim>\<open>T00:00:00\<close> makes it an invalid date, and every note with a due date gets the default
  class. At noon of 11 January 2025 the note due on 10 January, with its reminder at
  9:30, is classified as default and not as overdue; the same due date in the form
  \<^verbatim>\<open>YYYY-MM-DD\<close> is classified as overdue.
\<close>

theorem server_date_gets_default:
  "dueDate sent_due = Some (DateTime 1736467200000) \<and>
   reminderTime sent_due = Some (9, 30) \<and>
   today noon = 20099 \<and>
   noteColorClass noon sent_due = color_default \<and>
   isDateOverdue noon (dueDate sent_due) = False \<and>
   getNoteColorClass noon (Some (DateOnly 20098)) (Some (9, 30)) = color_overdue"
  by (simp add: noteColorClass_def getNoteColorClass_def isDateOverdue_def Let_def
      sent_due_def sent1_def note1_def noon_def)

section \<open>Updating a note\<close>

lemma findIndex_Some:
  "findIndex p xs = Some k \<Longrightarrow> k < length xs \<and> p (xs ! k) \<and> (\<forall>j<k. \<not> p (xs ! j))"
proof (induction xs arbitrary: k)
  case Nil
  then show ?case by simp
next
  case (Cons x xs)
  show ?case
  proof (cases "p x")
    case True
    with Cons.prems show ?thesis by simp
  next
    case False
    with Cons.prems obtain k' where k': "findIndex p xs = Some k'" "k = Suc k'"
      by (auto split: option.splits)
    from Cons.IH [OF k'(1)] False k'(2) show ?thesis
      by (auto simp: less_Suc_eq_0_disj)
  qed
qed

lemma findIndex_None: "findIndex p xs = None \<longleftrightarrow> (\<forall>x\<in>set xs. \<not> p x)"
  by (induction xs) (auto split: option.splits)

text \<open>
  The local client merges: a supplied field takes the supplied value, every other field
  keeps its value, and no other note of the store changes.
\<close>

lemma spread_fields:
  "note_id (spread n u) = (case upd_id u of None \<Rightarrow> note_id n | Some v \<Rightarrow> v)"
  "note_text (spread n u) = (case upd_text u of None \<Rightarrow> note_text n | Some v \<Rightarrow> v)"
  "createdAt (spread n u) = (case upd_createdAt u of None \<Rightarrow> createdAt n | Some v \<Rightarrow> v)"
  "pinned (spread n u) = (case upd_pinned u of None \<Rightarrow> pinned n | Some v \<Rightarrow> v)"
  "dueDate (spread n u) = (case upd_dueDate u of None \<Rightarrow> dueDate n | Some v \<Rightarrow> v)"
  "reminderTime (spread n u) =
     (case upd_reminderTime u of None \<Rightarrow> reminderTime n | Some v \<Rightarrow> v)"
  by (simp_all add: spread_def)

lemma updateNoteContent_local_merges:
  assumes "loadNotes (item st) = Inr ns" and "findIndex (\<lambda>n. note_id n = i) ns = Some k"
  shows "\<exists>ns'. updateNoteContent_local i u st = Inr (saveNotes ns' st) \<and>
           length ns' = length ns \<and> ns' ! k = spread (ns ! k) u \<and>
           (\<forall>j<length ns. j \<noteq> k \<longrightarrow> ns' ! j = ns ! j)"
proof -
  from findIndex_Some [OF assms(2)] have "k < length ns" by simp
  with assms show ?thesis
    by (intro exI [of _ "ns[k := spread (ns ! k) u]"]) (simp add: updateNoteContent_local_def)
qed

lemma updateNoteContent_local_example:
  "updateNoteContent_local (IdNum 2) new_text page1 =
     Inr \<lparr> item = Stored [note1, note2\<lparr>note_text := ''x''\<rparr>, note3],
           savingIndicator = ''Saved!'', alerts = [] \<rparr>"
  by (simp add: updateNoteContent_local_def loadNotes_def saveNotes_def spread_def new_text_def
      page1_def note1_def note2_def note3_def)

text \<open>
  Claim C2. An update that supplies only some fields sets those and leaves every other
  field of the note as it was. The handler of \<^verbatim>\<open>PUT /api/notes/:id\<close> does not: it assigns
  both columns from the body. A body with the text only is answered with 200 and the
  pin flag of the row, which was true, is \<^verbatim>\<open>NULL\<close> afterwards; a body with the pin flag
  only, as \<^verbatim>\<open>togglePinNote\<close> sends it, is answered with 500 and changes nothing.
\<close>

theorem put_overwrites_unsupplied:
  "put_note (Numeral 1) text_only db1 =
     (\<lparr>status = 200, reply = RowJson (row1\<lparr>row_text := ''x'', row_pinned := None\<rparr>)\<rparr>,
      db1\<lparr>notes_table := [row1\<lparr>row_text := ''x'', row_pinned := None\<rparr>]\<rparr>) \<and>
   row_pinned row1 = Some True \<and>
   put_note (Numeral 1) pinned_only db1 =
     (\<lparr>status = 500, reply = ErrorJson ''Internal server error''\<rparr>, db1)"
  by (simp add: put_note_def update_query_def id_param_def int4_def db1_def row1_def
      text_only_def pinned_only_def)

section \<open>Reading the store\<close>

text \<open>The API client answers every failure of the request with the empty list.\<close>

lemma fetchNotes_failure:
  "fetchNotes Rejected = ([], [''Failed to fetch notes:''])"
  "\<not> ok st \<Longrightarrow> fetchNotes (Responded st body) = ([], [''Failed to fetch notes:''])"
  "fetchNotes (Responded st None) = ([], [''Failed to fetch notes:''])"
  by (simp_all add: fetchNotes_def)

lemma initializeApp_api_failure: "initializeApp_api Rejected = []"
  by (simp add: initializeApp_api_def fetchNotes_def renderAllNotes_api_def)

text \<open>
  Claim C5. When the store cannot be read the caller receives the empty collection and
  nothing is thrown out of the render path. \<^verbatim>\<open>loadNotes\<close> of \<^verbatim>\<open>script.js\<close> does not: on
  an item that \<^verbatim>\<open>JSON.parse\<close> rejects it throws, and \<^verbatim>\<open>renderAllNotes\<close>, called first by
  \<^verbatim>\<open>initializeApp\<close>, lets the exception through.
\<close>

theorem loadNotes_throws_on_corrupt:
  "loadNotes (item page_corrupt) = (Inl SyntaxError :: error + sticky_note list) \<and>
   initializeApp_local page_corrupt = Inl SyntaxError"
  by (simp add: initializeApp_local_def loadNotes_def page_corrupt_def)

section \<open>Unknown identifiers\<close>

lemma filter_row_empty: "i \<notin> row_id ` set rs \<Longrightarrow> filter (\<lambda>r. row_id r = i) rs = []"
  by (induction rs) auto

lemma filter_row_id: "i \<notin> row_id ` set rs \<Longrightarrow> filter (\<lambda>r. row_id r \<noteq> i) rs = rs"
  by (induction rs) auto

lemma map_row_id:
  "i \<notin> row_id ` set rs \<Longrightarrow> map (\<lambda>r. if row_id r = i then f r else r) rs = rs"
  by (induction rs) auto

lemma put_note_missing:
  assumes "reachable d" and "int4 i" and "i \<notin> row_id ` set (notes_table d)"
  shows "put_note (Numeral i) body d =
           (\<lparr>status = 404, reply = ErrorJson ''Note not found''\<rparr>, d)"
proof (cases "body_text body")
  case None
  with assms show ?thesis
    by (auto simp: put_note_def update_query_def id_param_def list_ex_iff)
next
  case (Some t)
  with assms show ?thesis
    by (simp add: put_note_def update_query_def id_param_def filter_row_empty map_row_id)
qed

lemma delete_note_missing:
  assumes "reachable d" and "int4 i" and "i \<notin> row_id ` set (notes_table d)"
  shows "delete_note (Numeral i) d =
           (\<lparr>status = 404, reply = ErrorJson ''Note not found''\<rparr>, d)"
  using assms
  by (simp add: delete_note_def delete_query_def id_param_def filter_row_empty filter_row_id)

lemma delete_note_done:
  assumes "status (fst (delete_note p d)) = 204"
  shows "\<exists>i. p = Numeral i \<and> int4 i \<and> reachable (snd (delete_note p d)) \<and>
           i \<notin> row_id ` set (notes_table (snd (delete_note p d)))"
  using assms
  by (cases p)
     (auto simp: delete_note_def delete_query_def id_param_def split: if_splits list.splits)

lemma bad_id_fails:
  assumes "\<not> (\<exists>i. p = Numeral i \<and> int4 i)"
  shows "put_note p body d = (\<lparr>status = 500, reply = ErrorJson ''Internal server error''\<rparr>, d)"
    and "delete_note p d = (\<lparr>status = 500, reply = ErrorJson ''Internal server error''\<rparr>, d)"
  using assms
  by (cases p; simp add: put_note_def delete_note_def update_query_def delete_query_def
        id_param_def)+

lemma filter_note_id: "i \<notin> note_id ` set ns \<Longrightarrow> filter (\<lambda>n. note_id n \<noteq> i) ns = ns"
  by (induction ns) auto

text \<open>
  Claim C4, as the code has it. The server, when the database answers, replies 404 to an
  update and to a deletion of an identifier that is an integer of 32 bits and that no
  row has, and leaves the table as it is; after a deletion answered with 204 no row has
  the identifier, and the same deletion again is answered with 404. For an identifier
  that is no integer of 32 bits the query fails and the server replies 500, with the
  table as it is. The API client takes every response that is not \<^verbatim>\<open>ok\<close>, 404 and 500
  among them, as a failure and alerts. The local client has no such signal: for an
  identifier that no stored note has, \<^verbatim>\<open>updateNoteContent\<close> does nothing and
  \<^verbatim>\<open>deleteNote\<close> saves the collection as it was.
\<close>

theorem not_found:
  "(reachable d \<and> int4 i \<and> i \<notin> row_id ` set (notes_table d) \<longrightarrow>
      put_note (Numeral i) body d =
        (\<lparr>status = 404, reply = ErrorJson ''Note not found''\<rparr>, d) \<and>
      delete_note (Numeral i) d =
        (\<lparr>status = 404, reply = ErrorJson ''Note not found''\<rparr>, d)) \<and>
   (status (fst (delete_note p d)) = 204 \<longrightarrow>
      (\<exists>j. p = Numeral j \<and> j \<notin> row_id ` set (notes_table (snd (delete_note p d)))) \<and>
      delete_note p (snd (delete_note p d)) =
        (\<lparr>status = 404, reply = ErrorJson ''Note not found''\<rparr>, snd (delete_note p d))) \<and>
   (\<not> (\<exists>j. p = Numeral j \<and> int4 j) \<longrightarrow>
      put_note p body d =
        (\<lparr>status = 500, reply = ErrorJson ''Internal server error''\<rparr>, d) \<and>
      delete_note p d =
        (\<lparr>status = 500, reply = ErrorJson ''Internal server error''\<rparr>, d)) \<and>
   (\<not> ok code \<longrightarrow>
      updateNoteContent_api (Responded code b) st = alert Failed_to_update_note st \<and>
      deleteNote_api (Responded code b) st = alert Failed_to_delete_note st) \<and>
   \<not> ok 404 \<and> \<not> ok 500 \<and>
   (loadNotes (item pg) = Inr ns \<and> k \<notin> note_id ` set ns \<longrightarrow>
      updateNoteContent_local k u pg = Inr pg \<and>
      deleteNote_local k pg = Inr (saveNotes ns pg))"
proof (intro conjI impI)
  assume "reachable d \<and> int4 i \<and> i \<notin> row_id ` set (notes_table d)"
  then show "put_note (Numeral i) body d =
        (\<lparr>status = 404, reply = ErrorJson ''Note not found''\<rparr>, d)"
    and "delete_note (Numeral i) d =
        (\<lparr>status = 404, reply = ErrorJson ''Note not found''\<rparr>, d)"
    by (simp_all add: put_note_missing delete_note_missing)
next
  assume a: "status (fst (delete_note p d)) = 204"
  from delete_note_done [OF a]
  show "\<exists>j. p = Numeral j \<and> j \<notin> row_id ` set (notes_table (snd (delete_note p d)))"
    by blast
  from delete_note_done [OF a]
  show "delete_note p (snd (delete_note p d)) =
        (\<lparr>status = 404, reply = ErrorJson ''Note not found''\<rparr>, snd (delete_note p d))"
    by (auto simp: delete_note_missing)
next
  assume a: "\<not> (\<exists>j. p = Numeral j \<and> int4 j)"
  show "put_note p body d = (\<lparr>status = 500, reply = ErrorJson ''Internal server error''\<rparr>, d)"
    by (rule bad_id_fails(1) [OF a])
  show "delete_note p d = (\<lparr>status = 500, reply = ErrorJson ''Internal server error''\<rparr>, d)"
    by (rule bad_id_fails(2) [OF a])
next
  assume "\<not> ok code"
  then show "updateNoteContent_api (Responded code b) st = alert Failed_to_update_note st"
    and "deleteNote_api (Responded code b) st = alert Failed_to_delete_note st"
    by (simp_all add: updateNoteContent_api_def deleteNote_api_def)
next
  show "\<not> ok 404" and "\<not> ok 500" by (simp_all add: ok_def)
next
  assume a: "loadNotes (item pg) = Inr ns \<and> k \<notin> note_id ` set ns"
  then have "findIndex (\<lambda>n. note_id n = k) ns = None"
    by (auto simp: findIndex_None)
  with a show "updateNoteContent_local k u pg = Inr pg"
    by (simp add: updateNoteContent_local_def)
  from a show "deleteNote_local k pg = Inr (saveNotes ns pg)"
    by (simp add: deleteNote_local_def filter_note_id)
qed

text \<open>
  In the local client the deletion of an identifier that no note has ends like every
  deletion, with the indicator \<^verbatim>\<open>Saved!\<close> and no alert, and the update ends silently.
  The server answers 500, not 404, to the identifier 2147483648, which no row has, and
  to an identifier that is no number.
\<close>

theorem not_found_counterexample:
  "IdNum 9 \<notin> note_id ` set [note1, note2, note3] \<and>
   deleteNote_local (IdNum 9) page1 =
     Inr \<lparr> item = Stored [note1, note2, note3], savingIndicator = ''Saved!'', alerts = [] \<rparr> \<and>
   updateNoteContent_local (IdNum 9) new_text page1 = Inr page1 \<and>
   2147483648 \<notin> row_id ` set (notes_table db1) \<and>
   delete_note (Numeral 2147483648) db1 =
     (\<lparr>status = 500, reply = ErrorJson ''Internal server error''\<rparr>, db1) \<and>
   put_note Malformed text_only db1 =
     (\<lparr>status = 500, reply = ErrorJson ''Internal server error''\<rparr>, db1)"
  by (simp add: deleteNote_local_def updateNoteContent_local_def loadNotes_def saveNotes_def
      page1_def note1_def note2_def note3_def delete_note_def delete_query_def put_note_def
      update_query_def id_param_def int4_def db1_def row1_def text_only_def)

theorem not_found_witness:
  "reachable db1 \<and> int4 2 \<and> 2 \<notin> row_id ` set (notes_table db1) \<and>
   put_note (Numeral 2) text_only db1 =
     (\<lparr>status = 404, reply = ErrorJson ''Note not found''\<rparr>, db1) \<and>
   delete_note (Numeral 2) db1 =
     (\<lparr>status = 404, reply = ErrorJson ''Note not found''\<rparr>, db1) \<and>
   status (fst (delete_note (Numeral 1) db1)) = 204 \<and>
   notes_table (snd (delete_note (Numeral 1) db1)) = [] \<and>
   status (fst (delete_note (Numeral 1) (snd (delete_note (Numeral 1) db1)))) = 404 \<and>
   \<not> int4 2147483648 \<and>
   status (fst (delete_note (Numeral 2147483648) db1)) = 500 \<and>
   deleteNote_api (Responded 404 (None :: row option)) page1 =
     alert Failed_to_delete_note page1 \<and>
   loadNotes (item page1) = Inr [note1, note2, note3] \<and>
   IdNum 9 \<notin> note_id ` set [note1, note2, note3] \<and>
   deleteNote_local (IdNum 9) page1 = Inr (saveNotes [note1, note2, note3] page1)"
proof -
  have r: "reachable db1 \<and> int4 2 \<and> 2 \<notin> row_id ` set (notes_table db1)"
    by (simp add: db1_def row1_def int4_def)
  have s: "status (fst (delete_note (Numeral 1) db1)) = 204"
    by (simp add: delete_note_def delete_query_def id_param_def int4_def db1_def row1_def)
  have t: "notes_table (snd (delete_note (Numeral 1) db1)) = []"
    by (simp add: delete_note_def delete_query_def id_param_def int4_def db1_def row1_def)
  have o: "\<not> int4 2147483648" by (simp add: int4_def)
  then have o': "\<not> (\<exists>j. Numeral 2147483648 = Numeral j \<and> int4 j)" by simp
  have l: "loadNotes (item page1) = Inr [note1, note2, note3] \<and>
    IdNum 9 \<notin> note_id ` set [note1, note2, note3]"
    by (simp add: loadNotes_def page1_def note1_def note2_def note3_def)
  note nf2 = not_found [of db1 2 text_only "Numeral 2147483648" 404 "None :: row option" page1
                          page1 "[note1, note2, note3]" "IdNum 9" new_text]
  note nf1 = not_found [of db1 2 text_only "Numeral 1" 404 "None :: row option" page1
                          page1 "[note1, note2, note3]" "IdNum 9" new_text]
  from nf2 r have a: "put_note (Numeral 2) text_only db1 =
      (\<lparr>status = 404, reply = ErrorJson ''Note not found''\<rparr>, db1) \<and>
    delete_note (Numeral 2) db1 = (\<lparr>status = 404, reply = ErrorJson ''Note not found''\<rparr>, db1)"
    by blast
  from nf1 s have "delete_note (Numeral 1) (snd (delete_note (Numeral 1) db1)) =
      (\<lparr>status = 404, reply = ErrorJson ''Note not found''\<rparr>,
       snd (delete_note (Numeral 1) db1))"
    by blast
  then have b: "status (fst (delete_note (Numeral 1) (snd (delete_note (Numeral 1) db1)))) = 404"
    by simp
  from nf2 o' have "delete_note (Numeral 2147483648) db1 =
      (\<lparr>status = 500, reply = ErrorJson ''Internal server error''\<rparr>, db1)"
    by blast
  then have e: "status (fst (delete_note (Numeral 2147483648) db1)) = 500" by simp
  from nf2 have n: "\<not> ok 404" by blast
  with nf2 have g: "deleteNote_api (Responded 404 (None :: row option)) page1 =
     alert Failed_to_delete_note page1"
    by blast
  from nf2 l have c:
    "deleteNote_local (IdNum 9) page1 = Inr (saveNotes [note1, note2, note3] page1)"
    by blast
  from r a s t b o e g l c show ?thesis by blast
qed

section \<open>Importing a snapshot\<close>

lemma isNoteObject_iff:
  "isNoteObject x \<longleftrightarrow>
     (\<exists>props. x = JObj props \<and> ''id'' \<in> fst ` set props \<and> ''text'' \<in> fst ` set props)"
  by (cases x) auto

lemma isValidImport_iff:
  "isValidImport j \<longleftrightarrow>
     (\<exists>xs. j = JArr xs \<and>
        (\<forall>x\<in>set xs. \<exists>props. x = JObj props \<and>
            ''id'' \<in> fst ` set props \<and> ''text'' \<in> fst ` set props))"
  by (cases j) (auto simp: list_all_iff isNoteObject_iff)

text \<open>
  Claim C6. A file whose content is not an array of objects that each have an \<^verbatim>\<open>id\<close> and
  a \<^verbatim>\<open>text\<close> is rejected by both clients: the alert about the invalid format is shown and
  nothing else of the page changes, the item in local storage in particular. A file
  that is not JSON at all ends in the alert about the failed import, with the same page.
\<close>

theorem import_rejects_invalid:
  assumes "\<not> (\<exists>xs. j = JArr xs \<and>
        (\<forall>x\<in>set xs. \<exists>props. x = JObj props \<and>
            ''id'' \<in> fst ` set props \<and> ''text'' \<in> fst ` set props))"
  shows "importNotes_local (Some j) mergeOption st =
           st\<lparr>alerts := alerts st @ [Invalid_JSON_file_format]\<rparr> \<and>
         importNotes_api (Some j) mergeOption st =
           st\<lparr>alerts := alerts st @ [Invalid_JSON_file_format]\<rparr> \<and>
         importNotes_local None mergeOption st =
           st\<lparr>alerts := alerts st @ [Failed_to_import_notes]\<rparr> \<and>
         importNotes_api None mergeOption st =
           st\<lparr>alerts := alerts st @ [Failed_to_import_notes]\<rparr> \<and>
         item (importNotes_local (Some j) mergeOption st) = item st \<and>
         item (importNotes_api (Some j) mergeOption st) = item st"
proof -
  from assms have "\<not> isValidImport j" by (simp add: isValidImport_iff)
  then show ?thesis
    by (simp add: importNotes_local_def importNotes_api_def alert_def)
qed

text \<open>An array with an object that lacks its text, and an object that is not an array.\<close>

theorem import_rejects_invalid_witness:
  "importNotes_local (Some (JArr [hi5, JObj [(''id'', JNum 7)]])) True page5 =
     page5\<lparr>alerts := [Invalid_JSON_file_format]\<rparr> \<and>
   importNotes_api (Some (JObj [(''id'', JNum 7), (''text'', JStr ''seven'')])) False page5 =
     page5\<lparr>alerts := [Invalid_JSON_file_format]\<rparr> \<and>
   item (importNotes_local (Some (JArr [hi5, JObj [(''id'', JNum 7)]])) True page5) =
     Stored [old5]"
proof -
  have a: "\<not> (\<exists>xs. JArr [hi5, JObj [(''id'', JNum 7)]] = JArr xs \<and>
        (\<forall>x\<in>set xs. \<exists>props. x = JObj props \<and>
            ''id'' \<in> fst ` set props \<and> ''text'' \<in> fst ` set props))"
    by simp
  have b: "\<not> (\<exists>xs. JObj [(''id'', JNum 7), (''text'', JStr ''seven'')] = JArr xs \<and>
        (\<forall>x\<in>set xs. \<exists>props. x = JObj props \<and>
            ''id'' \<in> fst ` set props \<and> ''text'' \<in> fst ` set props))"
    by simp
  have p: "alerts page5 = []" "item page5 = Stored [old5]" by (simp_all add: page5_def)
  show ?thesis
    using import_rejects_invalid [OF a, of True page5]
          import_rejects_invalid [OF b, of False page5] p
    by simp
qed

text \<open>The merge, when no stored note is \<^verbatim>\<open>null\<close>.\<close>

lemma idsOf_no_null: "JNull \<notin> set ns \<Longrightarrow> idsOf ns = Inr (map noteId ns)"
  by (induction ns) (auto simp: idOf_def)

lemma has_iff: "has (map noteId cs) v \<longleftrightarrow> (\<exists>c\<in>set cs. sameValueZero (noteId c) v)"
  by (auto simp: has_def list_ex_iff)

lemma mergeNotes_eq:
  "JNull \<notin> set currentNotes \<Longrightarrow>
   mergeNotes currentNotes importedNotes =
     Inr (currentNotes @
          filter (\<lambda>n. \<not> (\<exists>c\<in>set currentNotes. sameValueZero (noteId c) (noteId n)))
            importedNotes)"
  by (simp add: mergeNotes_def idsOf_no_null has_iff)

lemma item_import_local_merge:
  assumes "isValidImport (JArr importedNotes)" and "loadNotes (item st) = Inr currentNotes"
      and "JNull \<notin> set currentNotes"
  shows "item (importNotes_local (Some (JArr importedNotes)) True st) =
     Stored (currentNotes @
          filter (\<lambda>n. \<not> (\<exists>c\<in>set currentNotes. sameValueZero (noteId c) (noteId n)))
            importedNotes)"
  using assms
  by (simp add: importNotes_local_def mergeNotes_eq saveNotes_def alert_def)

lemma item_import_api_merge:
  assumes "isValidImport (JArr importedNotes)" and "loadNotes (item st) = Inr currentNotes"
      and "JNull \<notin> set currentNotes"
  shows "item (importNotes_api (Some (JArr importedNotes)) True st) =
     Stored (currentNotes @
          filter (\<lambda>n. \<not> (\<exists>c\<in>set currentNotes. sameValueZero (noteId c) (noteId n)))
            importedNotes)"
  using assms
  by (simp add: importNotes_api_def mergeNotes_eq alert_def)

lemma example_import:
  "isValidImport (JArr [hi5, new6])" "loadNotes (item page5) = Inr [old5]"
  "JNull \<notin> set [old5]"
  by (simp_all add: hi5_def new6_def old5_def page5_def loadNotes_def)

text \<open>
  Claim C3. For a store that can be read and a valid snapshot, the import in merge mode
  stores a collection that begins with the notes of the store, each at its position and
  as it was, so no identifier is lost and no note is overwritten; what it holds beyond
  them are exactly the notes of the snapshot whose identifier no stored note has.
\<close>

theorem merge_keeps_existing:
  assumes "isValidImport (JArr importedNotes)" and "loadNotes (item st) = Inr currentNotes"
      and "JNull \<notin> set currentNotes"
  shows "\<exists>finalNotes.
           item (importNotes_local (Some (JArr importedNotes)) True st) = Stored finalNotes \<and>
           item (importNotes_api (Some (JArr importedNotes)) True st) = Stored finalNotes \<and>
           take (length currentNotes) finalNotes = currentNotes \<and>
           (\<forall>k<length currentNotes. finalNotes ! k = currentNotes ! k) \<and>
           noteId ` set currentNotes \<subseteq> noteId ` set finalNotes \<and>
           mset finalNotes = mset currentNotes +
             {# n \<in># mset importedNotes.
                \<not> (\<exists>c\<in>set currentNotes. sameValueZero (noteId c) (noteId n)) #}"
proof -
  let ?new = "filter (\<lambda>n. \<not> (\<exists>c\<in>set currentNotes. sameValueZero (noteId c) (noteId n)))
                importedNotes"
  have "item (importNotes_local (Some (JArr importedNotes)) True st) =
          Stored (currentNotes @ ?new)"
    by (rule item_import_local_merge [OF assms])
  moreover have "item (importNotes_api (Some (JArr importedNotes)) True st) =
          Stored (currentNotes @ ?new)"
    by (rule item_import_api_merge [OF assms])
  moreover have "take (length currentNotes) (currentNotes @ ?new) = currentNotes" by simp
  moreover have "\<forall>k<length currentNotes. (currentNotes @ ?new) ! k = currentNotes ! k"
    by (simp add: nth_append)
  moreover have "noteId ` set currentNotes \<subseteq> noteId ` set (currentNotes @ ?new)" by auto
  moreover have "mset (currentNotes @ ?new) = mset currentNotes +
             {# n \<in># mset importedNotes.
                \<not> (\<exists>c\<in>set currentNotes. sameValueZero (noteId c) (noteId n)) #}"
    by simp
  ultimately show ?thesis by blast
qed

text \<open>
  The scenario of the specification: the store holds a note with identifier 5, the
  snapshot another note with identifier 5; the stored note stays and nothing is added.
\<close>

theorem merge_keeps_existing_witness:
  "isValidImport (JArr [hi5]) \<and> loadNotes (item page5) = Inr [old5] \<and> JNull \<notin> set [old5] \<and>
   item (importNotes_local (Some (JArr [hi5])) True page5) = Stored [old5] \<and>
   item (importNotes_api (Some (JArr [hi5])) True page5) = Stored [old5] \<and>
   old5 \<noteq> hi5 \<and> noteId old5 = noteId hi5"
proof -
  have h: "isValidImport (JArr [hi5])" "loadNotes (item page5) = Inr [old5]"
    "JNull \<notin> set [old5]"
    by (simp_all add: hi5_def old5_def page5_def loadNotes_def)
  have d: "old5 \<noteq> hi5 \<and> noteId old5 = noteId hi5"
    by (simp add: old5_def hi5_def)
  have f: "{# n \<in># mset [hi5].
              \<not> (\<exists>c\<in>set [old5]. sameValueZero (noteId c) (noteId n)) #} = {#}"
    by (simp add: sameValueZero_def old5_def hi5_def)
  from merge_keeps_existing [OF h] obtain finalNotes where
    fin: "item (importNotes_local (Some (JArr [hi5])) True page5) = Stored finalNotes"
      "item (importNotes_api (Some (JArr [hi5])) True page5) = Stored finalNotes"
      "mset finalNotes = mset [old5] +
         {# n \<in># mset [hi5]. \<not> (\<exists>c\<in>set [old5]. sameValueZero (noteId c) (noteId n)) #}"
    by blast
  from fin(3) have "mset finalNotes = {#old5#}" unfolding f by simp
  then have "finalNotes = [old5]" by (simp add: mset_single_iff_right)
  with fin(1,2) h d show ?thesis by simp
qed

text \<open>
  Claim C10. For a store that can be read and a valid snapshot, the import in merge mode
  stores the notes of the store in their order, followed by the notes of the snapshot
  whose identifier no stored note has, in the order of the snapshot.
\<close>

theorem merge_appends:
  assumes "isValidImport (JArr importedNotes)" and "loadNotes (item st) = Inr currentNotes"
      and "JNull \<notin> set currentNotes"
  shows "item (importNotes_local (Some (JArr importedNotes)) True st) =
           Stored (currentNotes @
             filter (\<lambda>n. \<not> (\<exists>c\<in>set currentNotes. sameValueZero (noteId c) (noteId n)))
               importedNotes) \<and>
         item (importNotes_api (Some (JArr importedNotes)) True st) =
           Stored (currentNotes @
             filter (\<lambda>n. \<not> (\<exists>c\<in>set currentNotes. sameValueZero (noteId c) (noteId n)))
               importedNotes)"
  using item_import_local_merge [OF assms] item_import_api_merge [OF assms] by simp

theorem merge_appends_witness:
  "isValidImport (JArr [hi5, new6]) \<and> loadNotes (item page5) = Inr [old5] \<and>
   JNull \<notin> set [old5] \<and>
   item (importNotes_local (Some (JArr [hi5, new6])) True page5) = Stored [old5, new6] \<and>
   item (importNotes_api (Some (JArr [hi5, new6])) True page5) = Stored [old5, new6]"
proof -
  have f: "filter (\<lambda>n. \<not> (\<exists>c\<in>set [old5]. sameValueZero (noteId c) (noteId n))) [hi5, new6] =
             [new6]"
    by (simp add: sameValueZero_def old5_def hi5_def new6_def)
  show ?thesis
    using merge_appends [OF example_import] example_import unfolding f by simp
qed

end
